theory Spec2Isabelle
  imports Main "HOL-Library.Word"
begin

section \<open>JavaScript values used by \<^verbatim>\<open>index.ts\<close>\<close>

text \<open>
  A JavaScript string is a sequence of 16-bit code units. The keys that reach the
  selector are ASCII (the identifier alphabet, or the pathname of a parsed URL), so a
  code unit is there the code point of a character.
\<close>

type_synonym code_unit = "16 word"
type_synonym js_string = "code_unit list"

text \<open>
  The numbers of the hash computation: a non-negative integer, or \<^verbatim>\<open>NaN\<close>. The sum of
  the code units of a string stays far below \<open>2 ^ 53\<close> (a code unit is below \<open>2 ^ 16\<close>
  and no engine holds a string of \<open>2 ^ 37\<close> units), so the additions are exact.
\<close>

datatype number = NaN | Num nat

fun js_add :: "number \<Rightarrow> number \<Rightarrow> number" where
  "js_add (Num a) (Num b) = Num (a + b)"
| "js_add _ _ = NaN"

text \<open>The remainder operator \<^verbatim>\<open>%\<close> on such numbers: \<^verbatim>\<open>x % 0\<close> is \<^verbatim>\<open>NaN\<close>.\<close>

fun js_rem :: "number \<Rightarrow> number \<Rightarrow> number" where
  "js_rem (Num a) (Num n) = (if n = 0 then NaN else Num (a mod n))"
| "js_rem _ _ = NaN"

text \<open>\<^verbatim>\<open>key.split("")\<close>: the one-unit strings of the key, in order.\<close>

definition js_split :: "js_string \<Rightarrow> js_string list" where
  "js_split key = map (\<lambda>u. [u]) key"

text \<open>\<^verbatim>\<open>s.charCodeAt(i)\<close>: the code unit at position \<open>i\<close>, \<^verbatim>\<open>NaN\<close> out of range.\<close>

definition charCodeAt :: "js_string \<Rightarrow> nat \<Rightarrow> number" where
  "charCodeAt s i = (if i < length s then Num (unat (s ! i)) else NaN)"

text \<open>\<^verbatim>\<open>xs[i]\<close> for an array: \<^verbatim>\<open>undefined\<close> (here \<open>None\<close>) unless \<open>i\<close> is an index of \<open>xs\<close>.\<close>

fun array_at :: "'a list \<Rightarrow> number \<Rightarrow> 'a option" where
  "array_at xs (Num i) = (if i < length xs then Some (xs ! i) else None)"
| "array_at xs NaN = None"

section \<open>The shard selector\<close>

text \<open>
  \<^verbatim>\<open>function getRedisClient(key)\<close>, with the module-level array \<^verbatim>\<open>redisClients\<close> as
  a parameter. \<open>hash\<close> is the \<^verbatim>\<open>reduce\<close> of its first line, \<open>shardIndex\<close> the
  expression \<^verbatim>\<open>hash % redisClients.length\<close> of its second.
\<close>

definition hash :: "js_string \<Rightarrow> number" where
  "hash key = foldl (\<lambda>acc char. js_add acc (charCodeAt char 0)) (Num 0) (js_split key)"

definition shardIndex :: "js_string \<Rightarrow> nat \<Rightarrow> number" where
  "shardIndex key n = js_rem (hash key) (Num n)"

definition getRedisClient :: "'c list \<Rightarrow> js_string \<Rightarrow> 'c option" where
  "getRedisClient redisClients key = array_at redisClients (shardIndex key (length redisClients))"

section \<open>Request bodies\<close>

text \<open>
  The values a parsed JSON body can hold in its \<^verbatim>\<open>url\<close> and \<^verbatim>\<open>ttl\<close> properties.
  \<open>JUndefined\<close> is an absent property. \<open>JOtherNumber\<close> stands for the numbers that are
  not integers and \<open>JObject\<close> for arrays and objects: both are always truthy.
\<close>

datatype js_value =
    JUndefined
  | JNull
  | JBool bool
  | JInt int
  | JOtherNumber
  | JStr js_string
  | JObject

text \<open>Truthiness, as \<^verbatim>\<open>!x\<close> and \<^verbatim>\<open>x || y\<close> test it.\<close>

fun truthy :: "js_value \<Rightarrow> bool" where
  "truthy JUndefined = False"
| "truthy JNull = False"
| "truthy (JBool b) = b"
| "truthy (JInt n) = (n \<noteq> 0)"
| "truthy JOtherNumber = True"
| "truthy (JStr s) = (s \<noteq> [])"
| "truthy JObject = True"

definition js_or :: "js_value \<Rightarrow> js_value \<Rightarrow> js_value" where
  "js_or a b = (if truthy a then a else b)"

text \<open>
  \<^verbatim>\<open>const body = await req.json(); const { url: originalUrl, ttl } = body;\<close>
  The body is not JSON (\<^verbatim>\<open>req.json()\<close> throws), is the JSON \<^verbatim>\<open>null\<close> (the
  destructuring throws), or is a value whose \<^verbatim>\<open>url\<close> and \<^verbatim>\<open>ttl\<close> properties
  are read.
\<close>

datatype json_body = InvalidJson | JsonNull | JsonValue js_value js_value

text \<open>
  The exceptions of the handlers: \<^verbatim>\<open>req.json()\<close> on a body that is not JSON, a
  property read on \<^verbatim>\<open>null\<close> or \<^verbatim>\<open>undefined\<close> and a redirect that is refused, and
  the error reply of a store.
\<close>

datatype error = SyntaxError | TypeError | ReplyError

section \<open>The backing stores\<close>

text \<open>
  Modelled from the spec: the state of one backing store, which is not part of the
  repository. It holds the mapping entries of section 3, under each key a value and
  its ttl in seconds; the passing of time is left out. Its condition says how a call
  on it ends: a serving store answers as section 4.3 describes; a refusing store is
  connected but answers every command with an error reply (it is loading its data,
  or wants a password the client does not send); the connection to a store can be
  lost; an unresponsive store never answers.
\<close>

datatype condition = Serving | Refusing | Disconnected | Unresponsive

record entry =
  entry_value :: js_string
  entry_ttl :: nat

record server =
  condition :: condition
  entries :: "js_string \<rightharpoonup> entry"

text \<open>The calls on a reachable store reach its entries: it is connected and serving.\<close>

definition reachable :: "server \<Rightarrow> bool" where
  "reachable s = (condition s = Serving)"

text \<open>
  How a call on a client ends. The clients are created without an \<^verbatim>\<open>'error'\<close>
  listener and without a timeout (lines 10 to 23 and 151 to 164): the promise of a
  call is fulfilled with the store's answer or rejected with its error reply; a lost
  connection ends the process, and on an unresponsive store the promise is never
  settled.
\<close>

datatype 'a settled = Fulfilled 'a | Rejected error | Connection_lost | Never_settled

text \<open>
  Modelled from the spec: the expiry a store accepts with \<^verbatim>\<open>SET key value EX ttl\<close> is a
  positive integer of seconds (section 3); the store and its client library are not
  part of the repository. The upper bound of the store's integers is left out.
\<close>

fun expire_seconds :: "js_value \<Rightarrow> nat option" where
  "expire_seconds (JInt n) = (if 0 < n then Some (nat n) else None)"
| "expire_seconds _ = None"

text \<open>
  Modelled from the spec: \<^verbatim>\<open>set_with_ttl\<close> of section 4.3, the store adapter that the
  repository takes from its client library. A serving store refuses a value that is
  not a string and an expiry that is not a positive integer; otherwise it writes the
  entry, over any entry already at the key.
\<close>

definition store_set :: "server \<Rightarrow> js_string \<Rightarrow> js_value \<Rightarrow> js_value \<Rightarrow> server settled" where
  "store_set s key v ex =
     (case condition s of
        Serving \<Rightarrow>
          (case (v, expire_seconds ex) of
             (JStr u, Some t) \<Rightarrow>
               Fulfilled (s\<lparr>entries := (entries s)(key \<mapsto> \<lparr>entry_value = u, entry_ttl = t\<rparr>)\<rparr>)
           | _ \<Rightarrow> Rejected ReplyError)
      | Refusing \<Rightarrow> Rejected ReplyError
      | Disconnected \<Rightarrow> Connection_lost
      | Unresponsive \<Rightarrow> Never_settled)"

text \<open>
  Modelled from the spec: \<^verbatim>\<open>get\<close> of section 4.3; the stored value, or \<^verbatim>\<open>null\<close> when
  the key is absent.
\<close>

definition store_get :: "server \<Rightarrow> js_string \<Rightarrow> js_value settled" where
  "store_get s key =
     (case condition s of
        Serving \<Rightarrow>
          (case entries s key of
             None \<Rightarrow> Fulfilled JNull
           | Some e \<Rightarrow> Fulfilled (JStr (entry_value e)))
      | Refusing \<Rightarrow> Rejected ReplyError
      | Disconnected \<Rightarrow> Connection_lost
      | Unresponsive \<Rightarrow> Never_settled)"

text \<open>
  Modelled from the spec: \<^verbatim>\<open>delete\<close> of section 4.3; the number of keys removed (0 or
  1) and the store without the key.
\<close>

definition store_del :: "server \<Rightarrow> js_string \<Rightarrow> (nat \<times> server) settled" where
  "store_del s key =
     (case condition s of
        Serving \<Rightarrow>
          (case entries s key of
             None \<Rightarrow> Fulfilled (0, s)
           | Some e \<Rightarrow> Fulfilled (1, s\<lparr>entries := (entries s)(key := None)\<rparr>))
      | Refusing \<Rightarrow> Rejected ReplyError
      | Disconnected \<Rightarrow> Connection_lost
      | Unresponsive \<Rightarrow> Never_settled)"

text \<open>
  A connected client is identified by the store it is connected to, and the state of
  all stores is a function of it. Two elements of \<^verbatim>\<open>redisClients\<close> may name the same
  store. Every call a handler makes on a client is recorded.
\<close>

type_synonym client = nat
type_synonym world = "client \<Rightarrow> server"

datatype command =
    SET js_string js_value js_value
  | GET js_string
  | DEL js_string

type_synonym call = "client \<times> command"

section \<open>Responses\<close>

text \<open>
  The body of a response. \<open>Json_shortUrl shortId\<close> is the JSON object whose
  \<^verbatim>\<open>shortUrl\<close> ends in the identifier; \<open>Redirect_to v\<close> is the redirect made from \<open>v\<close>.
\<close>

datatype content =
    Text string
  | Html_page
  | OpenApi_spec
  | Json_error string
  | Json_message string
  | Json_shortUrl js_string
  | Redirect_to js_value

record response =
  status :: nat
  content :: content

text \<open>
  A request that gets no response from its handler: an exception leaves the handler,
  the process ends, or the handler waits for ever.
\<close>

datatype no_response = Throws error | Process_ends | Waits

text \<open>
  What a handler does: the response it returns or the way it returns none, the state
  of the stores afterwards, and the calls it made on the stores, in order.
\<close>

record outcome =
  reply :: "no_response + response"
  after :: world
  calls :: "call list"

section \<open>The handlers of the second server (lines 256 to 370)\<close>

text \<open>
  The branch \<^verbatim>\<open>POST /shorten\<close>. \<open>shortId\<close> is the value \<^verbatim>\<open>nanoid(8)\<close> returns.
  Every exception inside the \<^verbatim>\<open>try\<close> block is answered by the \<^verbatim>\<open>catch\<close> block.
\<close>

definition invalid_request :: response where
  "invalid_request = \<lparr>status = 400, content = Json_error ''Invalid request''\<rparr>"

definition shorten :: "client list \<Rightarrow> world \<Rightarrow> js_string \<Rightarrow> json_body \<Rightarrow> outcome" where
  "shorten redisClients w shortId body =
     (case body of
        InvalidJson \<Rightarrow> \<lparr>reply = Inr invalid_request, after = w, calls = []\<rparr>
      | JsonNull \<Rightarrow> \<lparr>reply = Inr invalid_request, after = w, calls = []\<rparr>
      | JsonValue originalUrl ttl \<Rightarrow>
          if \<not> truthy originalUrl
          then \<lparr>reply = Inr \<lparr>status = 400, content = Json_error ''URL is required''\<rparr>,
                 after = w, calls = []\<rparr>
          else (case getRedisClient redisClients shortId of
                  None \<Rightarrow> \<lparr>reply = Inr invalid_request, after = w, calls = []\<rparr>
                | Some redisClient \<Rightarrow>
                    (let ex = js_or ttl (JInt 3600);
                         cs = [(redisClient, SET shortId originalUrl ex)]
                     in case store_set (w redisClient) shortId originalUrl ex of
                          Fulfilled s \<Rightarrow>
                            \<lparr>reply = Inr \<lparr>status = 200, content = Json_shortUrl shortId\<rparr>,
                             after = w(redisClient := s), calls = cs\<rparr>
                        | Rejected e \<Rightarrow> \<lparr>reply = Inr invalid_request, after = w, calls = cs\<rparr>
                        | Connection_lost \<Rightarrow> \<lparr>reply = Inl Process_ends, after = w, calls = cs\<rparr>
                        | Never_settled \<Rightarrow> \<lparr>reply = Inl Waits, after = w, calls = cs\<rparr>)))"

text \<open>
  \<^verbatim>\<open>Response.redirect(originalUrl, 302)\<close>: a value with a carriage return or a line
  feed in it is refused with an exception; otherwise the response is a redirect made
  from the value, whose \<^verbatim>\<open>Location\<close> is the value as the runtime normalises it.
\<close>

fun line_break :: "js_value \<Rightarrow> bool" where
  "line_break (JStr s) = (10 \<in> set s \<or> 13 \<in> set s)"
| "line_break _ = False"

definition redirect :: "js_value \<Rightarrow> no_response + response" where
  "redirect originalUrl =
     (if line_break originalUrl then Inl (Throws TypeError)
      else Inr \<lparr>status = 302, content = Redirect_to originalUrl\<rparr>)"

text \<open>
  The branch \<^verbatim>\<open>GET /:shortId\<close>, from \<^verbatim>\<open>getRedisClient(shortId)\<close> on. It has no
  \<^verbatim>\<open>try\<close>: an exception leaves the handler.
\<close>

definition resolve :: "client list \<Rightarrow> world \<Rightarrow> js_string \<Rightarrow> outcome" where
  "resolve redisClients w shortId =
     (case getRedisClient redisClients shortId of
        None \<Rightarrow> \<lparr>reply = Inl (Throws TypeError), after = w, calls = []\<rparr>
      | Some redisClient \<Rightarrow>
          (let cs = [(redisClient, GET shortId)]
           in case store_get (w redisClient) shortId of
                Fulfilled originalUrl \<Rightarrow>
                  if \<not> truthy originalUrl
                  then \<lparr>reply = Inr \<lparr>status = 404, content = Text ''URL not found''\<rparr>,
                         after = w, calls = cs\<rparr>
                  else \<lparr>reply = redirect originalUrl, after = w, calls = cs\<rparr>
              | Rejected e \<Rightarrow> \<lparr>reply = Inl (Throws e), after = w, calls = cs\<rparr>
              | Connection_lost \<Rightarrow> \<lparr>reply = Inl Process_ends, after = w, calls = cs\<rparr>
              | Never_settled \<Rightarrow> \<lparr>reply = Inl Waits, after = w, calls = cs\<rparr>))"

text \<open>The branch \<^verbatim>\<open>DELETE /:shortId\<close>, from \<^verbatim>\<open>getRedisClient(shortId)\<close> on.\<close>

definition remove :: "client list \<Rightarrow> world \<Rightarrow> js_string \<Rightarrow> outcome" where
  "remove redisClients w shortId =
     (case getRedisClient redisClients shortId of
        None \<Rightarrow> \<lparr>reply = Inl (Throws TypeError), after = w, calls = []\<rparr>
      | Some redisClient \<Rightarrow>
          (let cs = [(redisClient, DEL shortId)]
           in case store_del (w redisClient) shortId of
                Fulfilled (deleted, s) \<Rightarrow>
                  if deleted = 0
                  then \<lparr>reply = Inr \<lparr>status = 404, content = Json_message ''Short URL not found''\<rparr>,
                         after = w(redisClient := s), calls = cs\<rparr>
                  else \<lparr>reply = Inr \<lparr>status = 200,
                                       content = Json_message ''Short URL deleted successfully''\<rparr>,
                         after = w(redisClient := s), calls = cs\<rparr>
              | Rejected e \<Rightarrow> \<lparr>reply = Inl (Throws e), after = w, calls = cs\<rparr>
              | Connection_lost \<Rightarrow> \<lparr>reply = Inl Process_ends, after = w, calls = cs\<rparr>
              | Never_settled \<Rightarrow> \<lparr>reply = Inl Waits, after = w, calls = cs\<rparr>))"

text \<open>
  A request, as \<^verbatim>\<open>fetch\<close> reads it: the method, the pathname of its URL and the
  outcome of parsing its body.
\<close>

record request =
  http_method :: string
  pathname :: js_string
  json :: json_body

definition ascii :: "string \<Rightarrow> js_string" where
  "ascii s = map of_char s"

text \<open>\<^verbatim>\<open>url.pathname.slice(1)\<close>.\<close>

definition slice1 :: "js_string \<Rightarrow> js_string" where
  "slice1 s = drop 1 s"

definition fetch :: "client list \<Rightarrow> world \<Rightarrow> js_string \<Rightarrow> request \<Rightarrow> outcome" where
  "fetch redisClients w shortId req =
     (if http_method req = ''GET'' \<and> pathname req = ascii ''/docs''
      then \<lparr>reply = Inr \<lparr>status = 200, content = Html_page\<rparr>, after = w, calls = []\<rparr>
      else if http_method req = ''GET'' \<and> pathname req = ascii ''/openapi.json''
      then \<lparr>reply = Inr \<lparr>status = 200, content = OpenApi_spec\<rparr>, after = w, calls = []\<rparr>
      else if http_method req = ''GET'' \<and> pathname req = ascii ''/''
      then \<lparr>reply = Inr \<lparr>status = 200, content = Html_page\<rparr>, after = w, calls = []\<rparr>
      else if http_method req = ''POST'' \<and> pathname req = ascii ''/shorten''
      then shorten redisClients w shortId (json req)
      else if http_method req = ''GET'' \<and> 1 < length (pathname req)
      then resolve redisClients w (slice1 (pathname req))
      else if http_method req = ''DELETE'' \<and> 1 < length (pathname req)
      then remove redisClients w (slice1 (pathname req))
      else \<lparr>reply = Inr \<lparr>status = 404, content = Text ''Not found''\<rparr>, after = w, calls = []\<rparr>)"

section \<open>The handlers of the first server (lines 33 to 138)\<close>

text \<open>
  Its \<^verbatim>\<open>POST /shorten\<close> branch differs from the second server's in the bodies of the
  two 400 responses; its \<^verbatim>\<open>GET /:shortId\<close> branch is the same, and it has no
  \<^verbatim>\<open>DELETE\<close> branch.
\<close>

definition invalid_request_v1 :: response where
  "invalid_request_v1 = \<lparr>status = 400, content = Text ''Invalid request''\<rparr>"

definition shorten_v1 :: "client list \<Rightarrow> world \<Rightarrow> js_string \<Rightarrow> json_body \<Rightarrow> outcome" where
  "shorten_v1 redisClients w shortId body =
     (case body of
        InvalidJson \<Rightarrow> \<lparr>reply = Inr invalid_request_v1, after = w, calls = []\<rparr>
      | JsonNull \<Rightarrow> \<lparr>reply = Inr invalid_request_v1, after = w, calls = []\<rparr>
      | JsonValue originalUrl ttl \<Rightarrow>
          if \<not> truthy originalUrl
          then \<lparr>reply = Inr \<lparr>status = 400, content = Text ''URL is required''\<rparr>,
                 after = w, calls = []\<rparr>
          else (case getRedisClient redisClients shortId of
                  None \<Rightarrow> \<lparr>reply = Inr invalid_request_v1, after = w, calls = []\<rparr>
                | Some redisClient \<Rightarrow>
                    (let ex = js_or ttl (JInt 3600);
                         cs = [(redisClient, SET shortId originalUrl ex)]
                     in case store_set (w redisClient) shortId originalUrl ex of
                          Fulfilled s \<Rightarrow>
                            \<lparr>reply = Inr \<lparr>status = 200, content = Json_shortUrl shortId\<rparr>,
                             after = w(redisClient := s), calls = cs\<rparr>
                        | Rejected e \<Rightarrow> \<lparr>reply = Inr invalid_request_v1, after = w, calls = cs\<rparr>
                        | Connection_lost \<Rightarrow> \<lparr>reply = Inl Process_ends, after = w, calls = cs\<rparr>
                        | Never_settled \<Rightarrow> \<lparr>reply = Inl Waits, after = w, calls = cs\<rparr>)))"

definition fetch_v1 :: "client list \<Rightarrow> world \<Rightarrow> js_string \<Rightarrow> request \<Rightarrow> outcome" where
  "fetch_v1 redisClients w shortId req =
     (if http_method req = ''GET'' \<and> pathname req = ascii ''/''
      then \<lparr>reply = Inr \<lparr>status = 200, content = Html_page\<rparr>, after = w, calls = []\<rparr>
      else if http_method req = ''POST'' \<and> pathname req = ascii ''/shorten''
      then shorten_v1 redisClients w shortId (json req)
      else if http_method req = ''GET'' \<and> 1 < length (pathname req)
      then resolve redisClients w (slice1 (pathname req))
      else \<lparr>reply = Inr \<lparr>status = 404, content = Text ''Not found''\<rparr>, after = w, calls = []\<rparr>)"

section \<open>The selector as the specification words it\<close>

text \<open>
  Section 4.2: sum the numeric code of every character in the key, then reduce
  modulo \<open>n\<close>. A character of the key is one element of the string.
\<close>

definition select_spec :: "js_string \<Rightarrow> nat \<Rightarrow> nat" where
  "select_spec key n = sum_list (map unat key) mod n"

section \<open>Code units and code points\<close>

text \<open>
  The Unicode code points of a string: a high surrogate followed by a low surrogate
  is one character outside the basic plane, every other code unit is a character of
  its own.
\<close>

definition is_high_surrogate :: "code_unit \<Rightarrow> bool" where
  "is_high_surrogate u = (55296 \<le> unat u \<and> unat u \<le> 56319)"

definition is_low_surrogate :: "code_unit \<Rightarrow> bool" where
  "is_low_surrogate u = (56320 \<le> unat u \<and> unat u \<le> 57343)"

definition pair_point :: "code_unit \<Rightarrow> code_unit \<Rightarrow> nat" where
  "pair_point h l = 65536 + (unat h - 55296) * 1024 + (unat l - 56320)"

fun code_points :: "js_string \<Rightarrow> nat list" where
  "code_points (h # l # us) =
     (if is_high_surrogate h \<and> is_low_surrogate l
      then pair_point h l # code_points us
      else unat h # code_points (l # us))"
| "code_points [u] = [unat u]"
| "code_points [] = []"

section \<open>The reference configuration and sample states\<close>

text \<open>
  The three clients of \<^verbatim>\<open>redisClients\<close>, connected to three different stores; stores
  that are all serving and empty; stores whose connections are all lost; stores that
  all refuse every command; a key of the identifier generator's length and alphabet,
  and a URL.
\<close>

definition reference_clients :: "client list" where
  "reference_clients = [0, 1, 2]"

definition fresh_world :: world where
  "fresh_world c = \<lparr>condition = Serving, entries = Map.empty\<rparr>"

definition down_world :: world where
  "down_world c = \<lparr>condition = Disconnected, entries = Map.empty\<rparr>"

definition refusing_world :: world where
  "refusing_world c = \<lparr>condition = Refusing, entries = Map.empty\<rparr>"

definition sample_key :: js_string where
  "sample_key = ascii ''abcdefgh''"

definition sample_url :: js_string where
  "sample_url = ascii ''https://x.com''"

text \<open>
  Stores where the first one already holds an entry at the sample key, and stores
  where it holds the empty string there.
\<close>

definition stored_world :: world where
  "stored_world = fresh_world
     (0 := \<lparr>condition = Serving,
             entries = [sample_key \<mapsto> \<lparr>entry_value = ascii ''https://old.example'', entry_ttl = 60\<rparr>]\<rparr>)"

definition blank_world :: world where
  "blank_world = fresh_world
     (0 := \<lparr>condition = Serving,
             entries = [sample_key \<mapsto> \<lparr>entry_value = [], entry_ttl = 60\<rparr>]\<rparr>)"

section \<open>Properties of the shard selector\<close>

lemma foldl_charCodes:
  "foldl (\<lambda>acc char. js_add acc (charCodeAt char 0)) (Num a) (js_split key)
     = Num (a + sum_list (map unat key))"
  by (induction key arbitrary: a) (simp_all add: js_split_def charCodeAt_def)

lemma hash_sum: "hash key = Num (sum_list (map unat key))"
  by (simp add: hash_def foldl_charCodes)

lemma shardIndex_nonzero:
  "0 < n \<Longrightarrow> shardIndex k n = Num (sum_list (map unat k) mod n)"
  by (simp add: shardIndex_def hash_sum)

lemma getRedisClient_nonempty:
  "redisClients \<noteq> [] \<Longrightarrow>
     getRedisClient redisClients k
       = Some (redisClients ! (sum_list (map unat k) mod length redisClients))"
  by (simp add: getRedisClient_def shardIndex_def hash_sum)

lemma sample_key_units: "sample_key = [97, 98, 99, 100, 101, 102, 103, 104]"
  by (simp add: sample_key_def ascii_def)

lemma sample_key_client: "getRedisClient reference_clients sample_key = Some 0"
  by (simp add: getRedisClient_nonempty reference_clients_def sample_key_units)

text \<open>
  Claim C4. For every key \<open>k\<close> and shard count \<open>n \<ge> 1\<close>, the index the selector computes
  is the sum of the numeric codes of the characters of \<open>k\<close>, reduced modulo \<open>n\<close>.
\<close>

theorem shardIndex_is_sum_mod: "1 \<le> n \<Longrightarrow> shardIndex k n = Num (select_spec k n)"
  by (simp add: shardIndex_def hash_sum select_spec_def)

theorem shardIndex_is_sum_mod_witness:
  "(1::nat) \<le> 3 \<and> shardIndex [97, 98, 100] 3 = Num (select_spec [97, 98, 100] 3)
   \<and> select_spec [97, 98, 100] 3 = 1"
  using shardIndex_is_sum_mod [of 3 "[97, 98, 100]"] by (simp add: select_spec_def)

text \<open>
  On a key without surrogates, which every key of the identifier alphabet and every
  pathname is, the code units are the code points. With surrogate pairs the two sums
  can differ, but not modulo 3, the number of stores of \<^verbatim>\<open>redisClients\<close>.
\<close>

lemma pair_mod_3_offsets:
  "(65536 + a * 1024 + b) mod 3 = (55296 + a + (56320 + b)) mod (3::nat)"
proof -
  have "(65536 + a * 1024 + b) = 3 * (21845 + a * 341) + (1 + a + b)" by simp
  then have "(65536 + a * 1024 + b) mod 3 = (1 + a + b) mod 3"
    by (metis mod_mult_self4)
  moreover have "(55296 + a + (56320 + b)) = 3 * 37205 + (1 + a + b)" by simp
  then have "(55296 + a + (56320 + b)) mod 3 = (1 + a + b) mod 3"
    by (metis mod_mult_self4)
  ultimately show ?thesis by simp
qed

lemma surrogate_pair_mod_3:
  assumes "55296 \<le> h" and "56320 \<le> l"
  shows "(65536 + (h - 55296) * 1024 + (l - 56320)) mod 3 = (h + l) mod (3::nat)"
proof -
  from assms obtain a b where "h = 55296 + a" and "l = 56320 + b"
    by (metis le_Suc_ex)
  then show ?thesis by (simp only: pair_mod_3_offsets add_diff_cancel_left')
qed

lemma code_points_units:
  "\<forall>u \<in> set key. \<not> is_high_surrogate u \<Longrightarrow> code_points key = map unat key"
  by (induction key rule: code_points.induct) simp_all

lemma pair_point_mod_3:
  "is_high_surrogate h \<Longrightarrow> is_low_surrogate l \<Longrightarrow>
     pair_point h l mod 3 = (unat h + unat l) mod 3"
  unfolding pair_point_def is_high_surrogate_def is_low_surrogate_def
  by (intro surrogate_pair_mod_3) simp_all

lemma code_points_mod_3:
  "sum_list (code_points key) mod 3 = sum_list (map unat key) mod 3"
proof (induction key rule: code_points.induct)
  case (1 h l us)
  show ?case
  proof (cases "is_high_surrogate h \<and> is_low_surrogate l")
    case True
    then have p: "pair_point h l mod 3 = (unat h + unat l) mod 3"
      by (simp add: pair_point_mod_3)
    from True 1 have ih: "sum_list (code_points us) mod 3 = sum_list (map unat us) mod 3"
      by simp
    from True have c: "code_points (h # l # us) = pair_point h l # code_points us"
      by simp
    have "sum_list (code_points (h # l # us)) mod 3
            = (pair_point h l mod 3 + sum_list (code_points us) mod 3) mod 3"
      by (simp only: c sum_list.Cons mod_add_eq)
    also have "\<dots> = ((unat h + unat l) mod 3 + sum_list (map unat us) mod 3) mod 3"
      by (simp only: p ih)
    also have "\<dots> = sum_list (map unat (h # l # us)) mod 3"
      by (simp add: mod_add_eq add.assoc)
    finally show ?thesis .
  next
    case False
    with 1 have ih: "sum_list (code_points (l # us)) mod 3 = sum_list (map unat (l # us)) mod 3"
      by simp
    from False have c: "code_points (h # l # us) = unat h # code_points (l # us)"
      by auto
    have "sum_list (code_points (h # l # us)) mod 3
            = (unat h + sum_list (code_points (l # us)) mod 3) mod 3"
      by (simp only: c sum_list.Cons mod_add_right_eq)
    also have "\<dots> = (unat h + sum_list (map unat (l # us)) mod 3) mod 3"
      by (simp only: ih)
    also have "\<dots> = sum_list (map unat (h # l # us)) mod 3"
      by (simp add: mod_add_right_eq)
    finally show ?thesis .
  qed
qed simp_all

text \<open>
  Claim C6. For every key and every shard count \<open>n \<ge> 1\<close>, the index lies in \<open>[0, n)\<close>,
  and the positional lookup of \<^verbatim>\<open>getRedisClient\<close> into an array of \<open>n\<close> clients yields
  the client at that index, never \<^verbatim>\<open>undefined\<close>.
\<close>

theorem shardIndex_in_range:
  "1 \<le> n \<Longrightarrow> length redisClients = n \<Longrightarrow>
     \<exists>i<n. shardIndex k n = Num i \<and> getRedisClient redisClients k = Some (redisClients ! i)"
  by (simp add: getRedisClient_def shardIndex_def hash_sum)

theorem shardIndex_in_range_witness:
  "(1::nat) \<le> 3 \<and> length reference_clients = 3
   \<and> (\<exists>i<3. shardIndex sample_key 3 = Num i
              \<and> getRedisClient reference_clients sample_key = Some (reference_clients ! i))"
  using shardIndex_in_range [of 3 reference_clients sample_key]
  by (simp add: reference_clients_def)

text \<open>
  Claim C9. For every shard count \<open>n \<ge> 1\<close>, the selector applied to the empty key
  gives index 0.
\<close>

theorem shardIndex_empty_key: "1 \<le> n \<Longrightarrow> shardIndex [] n = Num 0"
  by (simp add: shardIndex_def hash_sum)

theorem shardIndex_empty_key_witness: "(1::nat) \<le> 3 \<and> shardIndex [] 3 = Num 0"
  using shardIndex_empty_key [of 3] by simp

section \<open>The calls of the handlers\<close>

lemma shorten_truthy:
  "truthy originalUrl \<Longrightarrow> getRedisClient redisClients k = Some c \<Longrightarrow>
     shorten redisClients w k (JsonValue originalUrl ttl)
       = (case store_set (w c) k originalUrl (js_or ttl (JInt 3600)) of
            Fulfilled s \<Rightarrow>
              \<lparr>reply = Inr \<lparr>status = 200, content = Json_shortUrl k\<rparr>, after = w(c := s),
                 calls = [(c, SET k originalUrl (js_or ttl (JInt 3600)))]\<rparr>
          | Rejected e \<Rightarrow>
              \<lparr>reply = Inr invalid_request, after = w,
                 calls = [(c, SET k originalUrl (js_or ttl (JInt 3600)))]\<rparr>
          | Connection_lost \<Rightarrow>
              \<lparr>reply = Inl Process_ends, after = w,
                 calls = [(c, SET k originalUrl (js_or ttl (JInt 3600)))]\<rparr>
          | Never_settled \<Rightarrow>
              \<lparr>reply = Inl Waits, after = w,
                 calls = [(c, SET k originalUrl (js_or ttl (JInt 3600)))]\<rparr>)"
  by (simp add: shorten_def Let_def)

lemma shorten_v1_truthy:
  "truthy originalUrl \<Longrightarrow> getRedisClient redisClients k = Some c \<Longrightarrow>
     shorten_v1 redisClients w k (JsonValue originalUrl ttl)
       = (case store_set (w c) k originalUrl (js_or ttl (JInt 3600)) of
            Fulfilled s \<Rightarrow>
              \<lparr>reply = Inr \<lparr>status = 200, content = Json_shortUrl k\<rparr>, after = w(c := s),
                 calls = [(c, SET k originalUrl (js_or ttl (JInt 3600)))]\<rparr>
          | Rejected e \<Rightarrow>
              \<lparr>reply = Inr invalid_request_v1, after = w,
                 calls = [(c, SET k originalUrl (js_or ttl (JInt 3600)))]\<rparr>
          | Connection_lost \<Rightarrow>
              \<lparr>reply = Inl Process_ends, after = w,
                 calls = [(c, SET k originalUrl (js_or ttl (JInt 3600)))]\<rparr>
          | Never_settled \<Rightarrow>
              \<lparr>reply = Inl Waits, after = w,
                 calls = [(c, SET k originalUrl (js_or ttl (JInt 3600)))]\<rparr>)"
  by (simp add: shorten_v1_def Let_def)

lemma shorten_calls:
  "truthy originalUrl \<Longrightarrow> getRedisClient redisClients k = Some c \<Longrightarrow>
     calls (shorten redisClients w k (JsonValue originalUrl ttl))
       = [(c, SET k originalUrl (js_or ttl (JInt 3600)))]"
  by (simp add: shorten_truthy split: settled.split)

lemma shorten_v1_calls:
  "truthy originalUrl \<Longrightarrow> getRedisClient redisClients k = Some c \<Longrightarrow>
     calls (shorten_v1 redisClients w k (JsonValue originalUrl ttl))
       = [(c, SET k originalUrl (js_or ttl (JInt 3600)))]"
  by (simp add: shorten_v1_truthy split: settled.split)

lemma resolve_calls:
  "getRedisClient redisClients k = Some c \<Longrightarrow>
     calls (resolve redisClients w k) = [(c, GET k)]"
  by (simp add: resolve_def Let_def split: settled.split)

lemma remove_calls:
  "getRedisClient redisClients k = Some c \<Longrightarrow>
     calls (remove redisClients w k) = [(c, DEL k)]"
  by (simp add: remove_def Let_def split: settled.split prod.split)

text \<open>
  Claim C5. The selector is a function of the key and the shard count alone: whatever
  the stores hold (\<open>w1\<close> at shorten time, \<open>w2\<close> and \<open>w3\<close> later), for an unchanged
  client array the one call of shorten, of resolve and of remove for a key goes to the
  client at the same index, the index the selector gives for the key.
\<close>

theorem shard_locality:
  assumes "redisClients \<noteq> []" and "truthy originalUrl"
  shows "\<exists>i<length redisClients.
           shardIndex k (length redisClients) = Num i
         \<and> map fst (calls (shorten redisClients w1 k (JsonValue originalUrl ttl))) = [redisClients ! i]
         \<and> map fst (calls (shorten_v1 redisClients w1 k (JsonValue originalUrl ttl))) = [redisClients ! i]
         \<and> calls (resolve redisClients w2 k) = [(redisClients ! i, GET k)]
         \<and> calls (remove redisClients w3 k) = [(redisClients ! i, DEL k)]"
proof (intro exI conjI)
  let ?i = "sum_list (map unat k) mod length redisClients"
  from assms(1) have n: "0 < length redisClients" by simp
  then show "?i < length redisClients" by simp
  show "shardIndex k (length redisClients) = Num ?i"
    using n by (rule shardIndex_nonzero)
  have g: "getRedisClient redisClients k = Some (redisClients ! ?i)"
    using assms(1) by (rule getRedisClient_nonempty)
  show "map fst (calls (shorten redisClients w1 k (JsonValue originalUrl ttl))) = [redisClients ! ?i]"
    by (simp add: shorten_calls [OF assms(2) g])
  show "map fst (calls (shorten_v1 redisClients w1 k (JsonValue originalUrl ttl))) = [redisClients ! ?i]"
    by (simp add: shorten_v1_calls [OF assms(2) g])
  show "calls (resolve redisClients w2 k) = [(redisClients ! ?i, GET k)]"
    by (rule resolve_calls [OF g])
  show "calls (remove redisClients w3 k) = [(redisClients ! ?i, DEL k)]"
    by (rule remove_calls [OF g])
qed

theorem shard_locality_witness:
  "reference_clients \<noteq> [] \<and> truthy (JStr sample_url)
   \<and> (\<exists>i<length reference_clients.
           shardIndex sample_key (length reference_clients) = Num i
         \<and> map fst (calls (shorten reference_clients fresh_world sample_key (JsonValue (JStr sample_url) JUndefined))) = [reference_clients ! i]
         \<and> map fst (calls (shorten_v1 reference_clients fresh_world sample_key (JsonValue (JStr sample_url) JUndefined))) = [reference_clients ! i]
         \<and> calls (resolve reference_clients down_world sample_key) = [(reference_clients ! i, GET sample_key)]
         \<and> calls (remove reference_clients fresh_world sample_key) = [(reference_clients ! i, DEL sample_key)])"
proof -
  have h1: "reference_clients \<noteq> []" by (simp add: reference_clients_def)
  have h2: "truthy (JStr sample_url)" by (simp add: sample_url_def ascii_def)
  show ?thesis
    using h1 h2 shard_locality [OF h1 h2, of sample_key fresh_world JUndefined down_world fresh_world]
    by simp
qed

section \<open>Routing\<close>

text \<open>
  The handlers are the branches of \<^verbatim>\<open>fetch\<close>. In the second server the documentation
  routes come first, so \<^verbatim>\<open>GET /docs\<close> and \<^verbatim>\<open>GET /openapi.json\<close> are never looked
  up as keys.
\<close>

lemma fetch_shorten:
  "http_method req = ''POST'' \<Longrightarrow> pathname req = ascii ''/shorten'' \<Longrightarrow>
     fetch redisClients w shortId req = shorten redisClients w shortId (json req)"
  by (simp add: fetch_def)

lemma fetch_resolve:
  "http_method req = ''GET'' \<Longrightarrow> pathname req = ascii ''/'' @ k \<Longrightarrow> k \<noteq> [] \<Longrightarrow>
   k \<noteq> ascii ''docs'' \<Longrightarrow> k \<noteq> ascii ''openapi.json'' \<Longrightarrow>
     fetch redisClients w shortId req = resolve redisClients w k"
  by (simp add: fetch_def slice1_def ascii_def)

lemma fetch_remove:
  "http_method req = ''DELETE'' \<Longrightarrow> pathname req = ascii ''/'' @ k \<Longrightarrow> k \<noteq> [] \<Longrightarrow>
     fetch redisClients w shortId req = remove redisClients w k"
  by (simp add: fetch_def slice1_def ascii_def)

lemma fetch_v1_shorten:
  "http_method req = ''POST'' \<Longrightarrow> pathname req = ascii ''/shorten'' \<Longrightarrow>
     fetch_v1 redisClients w shortId req = shorten_v1 redisClients w shortId (json req)"
  by (simp add: fetch_v1_def)

lemma fetch_v1_resolve:
  "http_method req = ''GET'' \<Longrightarrow> pathname req = ascii ''/'' @ k \<Longrightarrow> k \<noteq> [] \<Longrightarrow>
     fetch_v1 redisClients w shortId req = resolve redisClients w k"
  by (simp add: fetch_v1_def slice1_def ascii_def)

lemma fetch_v1_delete:
  "http_method req = ''DELETE'' \<Longrightarrow>
     fetch_v1 redisClients w shortId req
       = \<lparr>reply = Inr \<lparr>status = 404, content = Text ''Not found''\<rparr>, after = w, calls = []\<rparr>"
  by (simp add: fetch_v1_def)

section \<open>Validation\<close>

text \<open>
  Claim C3. A shorten request whose \<^verbatim>\<open>url\<close> is absent or the empty string is answered
  with the 400 response "URL is required"; no call is made on any store and the state
  of every store is unchanged.
\<close>

theorem shorten_missing_url:
  "originalUrl = JUndefined \<or> originalUrl = JStr [] \<Longrightarrow>
     shorten redisClients w shortId (JsonValue originalUrl ttl)
       = \<lparr>reply = Inr \<lparr>status = 400, content = Json_error ''URL is required''\<rparr>,
          after = w, calls = []\<rparr>
     \<and> shorten_v1 redisClients w shortId (JsonValue originalUrl ttl)
       = \<lparr>reply = Inr \<lparr>status = 400, content = Text ''URL is required''\<rparr>,
          after = w, calls = []\<rparr>"
  by (auto simp: shorten_def shorten_v1_def)

theorem shorten_missing_url_witness:
  "(JUndefined = JUndefined \<or> JUndefined = JStr [])
   \<and> shorten reference_clients fresh_world sample_key (JsonValue JUndefined JUndefined)
       = \<lparr>reply = Inr \<lparr>status = 400, content = Json_error ''URL is required''\<rparr>,
          after = fresh_world, calls = []\<rparr>
   \<and> shorten_v1 reference_clients fresh_world sample_key (JsonValue JUndefined JUndefined)
       = \<lparr>reply = Inr \<lparr>status = 400, content = Text ''URL is required''\<rparr>,
          after = fresh_world, calls = []\<rparr>"
  using shorten_missing_url [of JUndefined reference_clients fresh_world sample_key JUndefined]
  by simp

section \<open>Writing an entry\<close>

lemma store_set_ok:
  "reachable s \<Longrightarrow> expire_seconds ex = Some t \<Longrightarrow>
     store_set s key (JStr u) ex
       = Fulfilled (s\<lparr>entries := (entries s)(key \<mapsto> \<lparr>entry_value = u, entry_ttl = t\<rparr>)\<rparr>)"
  by (simp add: store_set_def reachable_def)

lemma store_set_refused:
  "reachable s \<Longrightarrow> expire_seconds ex = None \<Longrightarrow> store_set s key v ex = Rejected ReplyError"
  by (cases v) (simp_all add: store_set_def reachable_def)

lemma shorten_stores:
  assumes "getRedisClient redisClients k = Some c" and "reachable (w c)" and "u \<noteq> []"
    and "expire_seconds (js_or ttl (JInt 3600)) = Some t"
  shows "shorten redisClients w k (JsonValue (JStr u) ttl)
       = \<lparr>reply = Inr \<lparr>status = 200, content = Json_shortUrl k\<rparr>,
          after = w(c := (w c)\<lparr>entries := (entries (w c))(k \<mapsto> \<lparr>entry_value = u, entry_ttl = t\<rparr>)\<rparr>),
          calls = [(c, SET k (JStr u) (js_or ttl (JInt 3600)))]\<rparr>"
  using assms by (simp add: shorten_truthy store_set_ok)

lemma shorten_v1_stores:
  assumes "getRedisClient redisClients k = Some c" and "reachable (w c)" and "u \<noteq> []"
    and "expire_seconds (js_or ttl (JInt 3600)) = Some t"
  shows "shorten_v1 redisClients w k (JsonValue (JStr u) ttl)
       = \<lparr>reply = Inr \<lparr>status = 200, content = Json_shortUrl k\<rparr>,
          after = w(c := (w c)\<lparr>entries := (entries (w c))(k \<mapsto> \<lparr>entry_value = u, entry_ttl = t\<rparr>)\<rparr>),
          calls = [(c, SET k (JStr u) (js_or ttl (JInt 3600)))]\<rparr>"
  using assms by (simp add: shorten_v1_truthy store_set_ok)

lemma expire_default: "\<not> truthy ttl \<Longrightarrow> expire_seconds (js_or ttl (JInt 3600)) = Some 3600"
  by (simp add: js_or_def)

lemma expire_positive: "0 < n \<Longrightarrow> expire_seconds (js_or (JInt n) (JInt 3600)) = Some (nat n)"
  by (simp add: js_or_def)

lemma js_or_negative: "n < 0 \<Longrightarrow> js_or (JInt n) d = JInt n"
  by (simp add: js_or_def)

lemma sample_url_nonempty: "sample_url \<noteq> []"
  by (simp add: sample_url_def ascii_def)

text \<open>
  Claim C1, amended. When the ttl of a shorten request is absent or otherwise falsy
  (\<^verbatim>\<open>null\<close>, \<^verbatim>\<open>false\<close>, 0, the empty string), the entry is stored with the default
  ttl of 3600 seconds; when it is a positive integer, the entry is stored with exactly
  that ttl. A negative ttl is not replaced by the default: the \<^verbatim>\<open>SET\<close> call carries
  it as it is.
\<close>

theorem shorten_ttl:
  assumes "getRedisClient redisClients shortId = Some c" and "reachable (w c)" and "u \<noteq> []"
  shows "(\<not> truthy ttl \<longrightarrow>
            entries (after (shorten redisClients w shortId (JsonValue (JStr u) ttl)) c) shortId
              = Some \<lparr>entry_value = u, entry_ttl = 3600\<rparr>
          \<and> entries (after (shorten_v1 redisClients w shortId (JsonValue (JStr u) ttl)) c) shortId
              = Some \<lparr>entry_value = u, entry_ttl = 3600\<rparr>)
       \<and> (0 < n \<longrightarrow>
            entries (after (shorten redisClients w shortId (JsonValue (JStr u) (JInt n))) c) shortId
              = Some \<lparr>entry_value = u, entry_ttl = nat n\<rparr>
          \<and> entries (after (shorten_v1 redisClients w shortId (JsonValue (JStr u) (JInt n))) c) shortId
              = Some \<lparr>entry_value = u, entry_ttl = nat n\<rparr>)
       \<and> (n < 0 \<longrightarrow>
            calls (shorten redisClients w shortId (JsonValue (JStr u) (JInt n)))
              = [(c, SET shortId (JStr u) (JInt n))]
          \<and> calls (shorten_v1 redisClients w shortId (JsonValue (JStr u) (JInt n)))
              = [(c, SET shortId (JStr u) (JInt n))])"
proof (intro conjI impI)
  assume f: "\<not> truthy ttl"
  show "entries (after (shorten redisClients w shortId (JsonValue (JStr u) ttl)) c) shortId
          = Some \<lparr>entry_value = u, entry_ttl = 3600\<rparr>"
    using assms expire_default [OF f] by (simp add: shorten_stores [of redisClients shortId c w u ttl 3600])
  show "entries (after (shorten_v1 redisClients w shortId (JsonValue (JStr u) ttl)) c) shortId
          = Some \<lparr>entry_value = u, entry_ttl = 3600\<rparr>"
    using assms expire_default [OF f] by (simp add: shorten_v1_stores [of redisClients shortId c w u ttl 3600])
next
  assume p: "0 < n"
  show "entries (after (shorten redisClients w shortId (JsonValue (JStr u) (JInt n))) c) shortId
          = Some \<lparr>entry_value = u, entry_ttl = nat n\<rparr>"
    using assms expire_positive [OF p] by (simp add: shorten_stores [of redisClients shortId c w u "JInt n" "nat n"])
  show "entries (after (shorten_v1 redisClients w shortId (JsonValue (JStr u) (JInt n))) c) shortId
          = Some \<lparr>entry_value = u, entry_ttl = nat n\<rparr>"
    using assms expire_positive [OF p] by (simp add: shorten_v1_stores [of redisClients shortId c w u "JInt n" "nat n"])
next
  assume m: "n < 0"
  have t: "truthy (JStr u)" using assms(3) by simp
  show "calls (shorten redisClients w shortId (JsonValue (JStr u) (JInt n)))
          = [(c, SET shortId (JStr u) (JInt n))]"
    by (simp add: shorten_calls [OF t assms(1)] js_or_negative [OF m])
  show "calls (shorten_v1 redisClients w shortId (JsonValue (JStr u) (JInt n)))
          = [(c, SET shortId (JStr u) (JInt n))]"
    by (simp add: shorten_v1_calls [OF t assms(1)] js_or_negative [OF m])
qed

theorem shorten_ttl_witness:
  "getRedisClient reference_clients sample_key = Some 0 \<and> reachable (fresh_world 0)
   \<and> sample_url \<noteq> [] \<and> \<not> truthy JUndefined \<and> (0::int) < 60 \<and> (- 5::int) < 0
   \<and> entries (after (shorten reference_clients fresh_world sample_key
                        (JsonValue (JStr sample_url) JUndefined)) 0) sample_key
       = Some \<lparr>entry_value = sample_url, entry_ttl = 3600\<rparr>
   \<and> entries (after (shorten reference_clients fresh_world sample_key
                        (JsonValue (JStr sample_url) (JInt 60))) 0) sample_key
       = Some \<lparr>entry_value = sample_url, entry_ttl = 60\<rparr>
   \<and> calls (shorten reference_clients fresh_world sample_key
               (JsonValue (JStr sample_url) (JInt (- 5))))
       = [(0, SET sample_key (JStr sample_url) (JInt (- 5)))]"
proof -
  have h1: "getRedisClient reference_clients sample_key = Some 0" by (rule sample_key_client)
  have h2: "reachable (fresh_world 0)" by (simp add: fresh_world_def reachable_def)
  have h3: "sample_url \<noteq> []" by (rule sample_url_nonempty)
  show ?thesis
    using h1 h2 h3
      shorten_ttl [of reference_clients sample_key 0 fresh_world sample_url JUndefined 60]
      shorten_ttl [of reference_clients sample_key 0 fresh_world sample_url JUndefined "- 5"]
    by simp
qed

text \<open>
  The claim as first worded (a non-positive ttl is replaced by 3600) fails at \<open>ttl = -5\<close>:
  the \<^verbatim>\<open>SET\<close> call carries the expiry \<open>-5\<close>, and no entry with ttl 3600 is at the key
  afterwards.
\<close>

lemma negative_ttl_outcome:
  "shorten reference_clients fresh_world sample_key (JsonValue (JStr sample_url) (JInt (- 5)))
     = \<lparr>reply = Inr invalid_request, after = fresh_world,
        calls = [(0, SET sample_key (JStr sample_url) (JInt (- 5)))]\<rparr>"
  using sample_url_nonempty
  by (simp add: shorten_truthy [of _ _ _ 0] sample_key_client js_or_def
        store_set_refused fresh_world_def reachable_def)

theorem shorten_negative_ttl_counterexample:
  "(- 5::int) \<le> 0
   \<and> calls (shorten reference_clients fresh_world sample_key
               (JsonValue (JStr sample_url) (JInt (- 5))))
       = [(0, SET sample_key (JStr sample_url) (JInt (- 5)))]
   \<and> entries (after (shorten reference_clients fresh_world sample_key
                        (JsonValue (JStr sample_url) (JInt (- 5)))) 0) sample_key
       \<noteq> Some \<lparr>entry_value = sample_url, entry_ttl = 3600\<rparr>"
  by (simp add: negative_ttl_outcome fresh_world_def)

section \<open>A store call that is rejected\<close>

lemma remove_rejected:
  "getRedisClient redisClients k = Some c \<Longrightarrow> store_del (w c) k = Rejected e \<Longrightarrow>
     remove redisClients w k = \<lparr>reply = Inl (Throws e), after = w, calls = [(c, DEL k)]\<rparr>"
  by (simp add: remove_def)

lemma shorten_rejected:
  "truthy originalUrl \<Longrightarrow> getRedisClient redisClients k = Some c \<Longrightarrow>
   store_set (w c) k originalUrl (js_or ttl (JInt 3600)) = Rejected e \<Longrightarrow>
     shorten redisClients w k (JsonValue originalUrl ttl)
       = \<lparr>reply = Inr invalid_request, after = w,
          calls = [(c, SET k originalUrl (js_or ttl (JInt 3600)))]\<rparr>"
  by (simp add: shorten_truthy)

lemma shorten_v1_rejected:
  "truthy originalUrl \<Longrightarrow> getRedisClient redisClients k = Some c \<Longrightarrow>
   store_set (w c) k originalUrl (js_or ttl (JInt 3600)) = Rejected e \<Longrightarrow>
     shorten_v1 redisClients w k (JsonValue originalUrl ttl)
       = \<lparr>reply = Inr invalid_request_v1, after = w,
          calls = [(c, SET k originalUrl (js_or ttl (JInt 3600)))]\<rparr>"
  by (simp add: shorten_v1_truthy)

lemma refusing_world_set:
  "store_set (refusing_world c) k v ex = Rejected ReplyError"
  by (simp add: store_set_def refusing_world_def)

lemma refusing_world_del:
  "store_del (refusing_world c) k = Rejected ReplyError"
  by (simp add: store_del_def refusing_world_def)

text \<open>
  A rejected call comes from a store that refuses every command, or from a serving
  store that refuses the arguments of a \<^verbatim>\<open>SET\<close>; a \<^verbatim>\<open>DEL\<close> is rejected by a refusing
  store only.
\<close>

lemma store_del_rejected_iff:
  "store_del s k = Rejected e \<longleftrightarrow> condition s = Refusing \<and> e = ReplyError"
  by (cases "condition s") (auto simp: store_del_def split: option.splits)

text \<open>
  Claim C2, amended. When the selected store rejects the call (it is connected and
  answers with an error reply), remove lets the store's error leave the handler as an
  exception (no response is made, so it is not the not-found response), and shorten
  answers with the 400 response "Invalid request" of its \<^verbatim>\<open>catch\<close> block, the
  response it also gives to a body that cannot be parsed. In both the store is called
  exactly once: the call is not retried.
\<close>

theorem backend_rejection:
  assumes "getRedisClient redisClients k = Some c"
  shows "(store_del (w c) k = Rejected e \<longrightarrow>
            remove redisClients w k
              = \<lparr>reply = Inl (Throws e), after = w, calls = [(c, DEL k)]\<rparr>)
       \<and> (truthy originalUrl
            \<and> store_set (w c) k originalUrl (js_or ttl (JInt 3600)) = Rejected e \<longrightarrow>
            shorten redisClients w k (JsonValue originalUrl ttl)
              = \<lparr>reply = Inr \<lparr>status = 400, content = Json_error ''Invalid request''\<rparr>,
                 after = w, calls = [(c, SET k originalUrl (js_or ttl (JInt 3600)))]\<rparr>
          \<and> shorten_v1 redisClients w k (JsonValue originalUrl ttl)
              = \<lparr>reply = Inr \<lparr>status = 400, content = Text ''Invalid request''\<rparr>,
                 after = w, calls = [(c, SET k originalUrl (js_or ttl (JInt 3600)))]\<rparr>)"
  using assms
  by (simp add: remove_rejected shorten_rejected shorten_v1_rejected
        invalid_request_def invalid_request_v1_def)

theorem backend_rejection_witness:
  "getRedisClient reference_clients sample_key = Some 0
   \<and> condition (refusing_world 0) = Refusing
   \<and> store_del (refusing_world 0) sample_key = Rejected ReplyError
   \<and> truthy (JStr sample_url)
   \<and> store_set (refusing_world 0) sample_key (JStr sample_url) (js_or JUndefined (JInt 3600))
       = Rejected ReplyError
   \<and> remove reference_clients refusing_world sample_key
       = \<lparr>reply = Inl (Throws ReplyError), after = refusing_world,
          calls = [(0, DEL sample_key)]\<rparr>
   \<and> shorten reference_clients refusing_world sample_key (JsonValue (JStr sample_url) JUndefined)
       = \<lparr>reply = Inr \<lparr>status = 400, content = Json_error ''Invalid request''\<rparr>,
          after = refusing_world,
          calls = [(0, SET sample_key (JStr sample_url) (JInt 3600))]\<rparr>
   \<and> shorten_v1 reference_clients refusing_world sample_key (JsonValue (JStr sample_url) JUndefined)
       = \<lparr>reply = Inr \<lparr>status = 400, content = Text ''Invalid request''\<rparr>,
          after = refusing_world,
          calls = [(0, SET sample_key (JStr sample_url) (JInt 3600))]\<rparr>"
proof -
  have h1: "getRedisClient reference_clients sample_key = Some 0" by (rule sample_key_client)
  have h2: "truthy (JStr sample_url)" using sample_url_nonempty by simp
  have h3: "js_or JUndefined (JInt 3600) = JInt 3600" by (simp add: js_or_def)
  have h4: "condition (refusing_world 0) = Refusing" by (simp add: refusing_world_def)
  show ?thesis
    using h1 h2 h3 h4 refusing_world_set [of 0 sample_key "JStr sample_url" "JInt 3600"]
      refusing_world_del [of 0 sample_key]
      backend_rejection [of reference_clients sample_key 0 refusing_world ReplyError
        "JStr sample_url" JUndefined]
    by simp
qed

text \<open>
  The claim as first worded (the failure is not conflated with a validation error)
  fails for shorten: when the store, connected, refuses the command, a well-formed
  request gets the very response that a malformed body gets.
\<close>

theorem shorten_backend_failure_counterexample:
  "condition (refusing_world 0) = Refusing
   \<and> calls (shorten reference_clients refusing_world sample_key
               (JsonValue (JStr sample_url) JUndefined))
       = [(0, SET sample_key (JStr sample_url) (JInt 3600))]
   \<and> reply (shorten reference_clients refusing_world sample_key
               (JsonValue (JStr sample_url) JUndefined))
       = reply (shorten reference_clients refusing_world sample_key InvalidJson)
   \<and> reply (shorten_v1 reference_clients refusing_world sample_key
               (JsonValue (JStr sample_url) JUndefined))
       = reply (shorten_v1 reference_clients refusing_world sample_key InvalidJson)"
proof -
  have t: "truthy (JStr sample_url)" using sample_url_nonempty by simp
  have d: "js_or JUndefined (JInt 3600) = JInt 3600" by (simp add: js_or_def)
  have "condition (refusing_world 0) = Refusing" by (simp add: refusing_world_def)
  moreover have "calls (shorten reference_clients refusing_world sample_key
                          (JsonValue (JStr sample_url) JUndefined))
                   = [(0, SET sample_key (JStr sample_url) (JInt 3600))]"
    by (simp add: shorten_calls [OF t sample_key_client] d)
  moreover have "reply (shorten reference_clients refusing_world sample_key
                          (JsonValue (JStr sample_url) JUndefined))
                   = Inr invalid_request"
    by (simp add: shorten_rejected [OF t sample_key_client refusing_world_set])
  moreover have "reply (shorten reference_clients refusing_world sample_key InvalidJson)
                   = Inr invalid_request"
    by (simp add: shorten_def)
  moreover have "reply (shorten_v1 reference_clients refusing_world sample_key
                          (JsonValue (JStr sample_url) JUndefined))
                   = Inr invalid_request_v1"
    by (simp add: shorten_v1_rejected [OF t sample_key_client refusing_world_set])
  moreover have "reply (shorten_v1 reference_clients refusing_world sample_key InvalidJson)
                   = Inr invalid_request_v1"
    by (simp add: shorten_v1_def)
  ultimately show ?thesis by simp
qed

section \<open>Reading and deleting an entry\<close>

lemma store_del_present:
  "reachable s \<Longrightarrow> entries s key = Some e \<Longrightarrow>
     store_del s key = Fulfilled (1, s\<lparr>entries := (entries s)(key := None)\<rparr>)"
  by (simp add: store_del_def reachable_def)

lemma store_del_absent:
  "reachable s \<Longrightarrow> entries s key = None \<Longrightarrow> store_del s key = Fulfilled (0, s)"
  by (simp add: store_del_def reachable_def)

lemma store_get_present:
  "reachable s \<Longrightarrow> entries s key = Some e \<Longrightarrow>
     store_get s key = Fulfilled (JStr (entry_value e))"
  by (simp add: store_get_def reachable_def)

lemma store_get_absent:
  "reachable s \<Longrightarrow> entries s key = None \<Longrightarrow> store_get s key = Fulfilled JNull"
  by (simp add: store_get_def reachable_def)

lemma remove_present:
  assumes "getRedisClient redisClients k = Some c" and "reachable (w c)"
    and "entries (w c) k = Some e"
  shows "remove redisClients w k
       = \<lparr>reply = Inr \<lparr>status = 200, content = Json_message ''Short URL deleted successfully''\<rparr>,
          after = w(c := (w c)\<lparr>entries := (entries (w c))(k := None)\<rparr>),
          calls = [(c, DEL k)]\<rparr>"
  using assms by (simp add: remove_def store_del_present)

lemma remove_absent:
  assumes "getRedisClient redisClients k = Some c" and "reachable (w c)"
    and "entries (w c) k = None"
  shows "remove redisClients w k
       = \<lparr>reply = Inr \<lparr>status = 404, content = Json_message ''Short URL not found''\<rparr>,
          after = w, calls = [(c, DEL k)]\<rparr>"
  using assms by (simp add: remove_def store_del_absent)

lemma resolve_absent:
  assumes "getRedisClient redisClients k = Some c" and "reachable (w c)"
    and "entries (w c) k = None"
  shows "resolve redisClients w k
       = \<lparr>reply = Inr \<lparr>status = 404, content = Text ''URL not found''\<rparr>,
          after = w, calls = [(c, GET k)]\<rparr>"
  using assms by (simp add: resolve_def store_get_absent)

lemma resolve_present:
  assumes "getRedisClient redisClients k = Some c" and "reachable (w c)"
    and "entries (w c) k = Some e"
  shows "resolve redisClients w k
       = (if entry_value e = []
          then \<lparr>reply = Inr \<lparr>status = 404, content = Text ''URL not found''\<rparr>,
                 after = w, calls = [(c, GET k)]\<rparr>
          else \<lparr>reply = redirect (JStr (entry_value e)), after = w, calls = [(c, GET k)]\<rparr>)"
  using assms by (simp add: resolve_def store_get_present)

lemma stored_world_0:
  "reachable (stored_world 0)"
  "entries (stored_world 0) sample_key
     = Some \<lparr>entry_value = ascii ''https://old.example'', entry_ttl = 60\<rparr>"
  by (simp_all add: stored_world_def reachable_def)

lemma blank_world_0:
  "reachable (blank_world 0)"
  "entries (blank_world 0) sample_key = Some \<lparr>entry_value = [], entry_ttl = 60\<rparr>"
  by (simp_all add: blank_world_def reachable_def)

text \<open>
  Claim C7. With the key's store reachable, remove answers "deleted" exactly when the
  key had an entry at its store and "not found" exactly when it had none; after a
  remove that answered "deleted", resolve of the key answers "URL not found" and a
  second remove answers "not found".
\<close>

theorem remove_then_resolve:
  assumes "getRedisClient redisClients k = Some c" and "reachable (w c)"
  shows "(reply (remove redisClients w k)
            = Inr \<lparr>status = 200, content = Json_message ''Short URL deleted successfully''\<rparr>
          \<longleftrightarrow> entries (w c) k \<noteq> None)
       \<and> (reply (remove redisClients w k)
            = Inr \<lparr>status = 404, content = Json_message ''Short URL not found''\<rparr>
          \<longleftrightarrow> entries (w c) k = None)
       \<and> (entries (w c) k \<noteq> None \<longrightarrow>
            reply (resolve redisClients (after (remove redisClients w k)) k)
              = Inr \<lparr>status = 404, content = Text ''URL not found''\<rparr>
          \<and> reply (remove redisClients (after (remove redisClients w k)) k)
              = Inr \<lparr>status = 404, content = Json_message ''Short URL not found''\<rparr>)"
proof (cases "entries (w c) k")
  case None
  then show ?thesis
    by (simp add: remove_absent [where w = w, OF assms None])
next
  case (Some e)
  let ?w' = "w(c := (w c)\<lparr>entries := (entries (w c))(k := None)\<rparr>)"
  have r: "reachable (?w' c)" using assms(2) by (simp add: reachable_def)
  have n: "entries (?w' c) k = None" by simp
  have a: "after (remove redisClients w k) = ?w'"
    by (simp add: remove_present [where w = w, OF assms Some])
  have "reply (remove redisClients w k)
          = Inr \<lparr>status = 200, content = Json_message ''Short URL deleted successfully''\<rparr>"
    by (simp add: remove_present [where w = w, OF assms Some])
  moreover have "reply (resolve redisClients ?w' k)
          = Inr \<lparr>status = 404, content = Text ''URL not found''\<rparr>"
    by (simp only: resolve_absent [where w = "?w'", OF assms(1) r n] outcome.simps)
  moreover have "reply (remove redisClients ?w' k)
          = Inr \<lparr>status = 404, content = Json_message ''Short URL not found''\<rparr>"
    by (simp only: remove_absent [where w = "?w'", OF assms(1) r n] outcome.simps)
  ultimately show ?thesis using Some a by simp
qed


theorem remove_then_resolve_witness:
  "getRedisClient reference_clients sample_key = Some 0 \<and> reachable (stored_world 0)
   \<and> entries (stored_world 0) sample_key \<noteq> None
   \<and> reply (remove reference_clients stored_world sample_key)
       = Inr \<lparr>status = 200, content = Json_message ''Short URL deleted successfully''\<rparr>
   \<and> reply (resolve reference_clients (after (remove reference_clients stored_world sample_key))
               sample_key)
       = Inr \<lparr>status = 404, content = Text ''URL not found''\<rparr>
   \<and> reply (remove reference_clients (after (remove reference_clients stored_world sample_key))
               sample_key)
       = Inr \<lparr>status = 404, content = Json_message ''Short URL not found''\<rparr>"
proof -
  have h1: "getRedisClient reference_clients sample_key = Some 0" by (rule sample_key_client)
  show ?thesis
    using h1 stored_world_0
      remove_then_resolve [of reference_clients sample_key 0 stored_world]
    by simp
qed

text \<open>
  Claim C8. Shorten makes one call on the store, the \<^verbatim>\<open>SET\<close>, with no read before it:
  when the generated key already has an entry at its store, the write succeeds all the
  same, and afterwards the store maps the key to the new value with the new ttl.
\<close>

theorem shorten_overwrites:
  assumes "getRedisClient redisClients shortId = Some c" and "reachable (w c)" and "u \<noteq> []"
    and "expire_seconds (js_or ttl (JInt 3600)) = Some t"
    and "entries (w c) shortId = Some old"
  shows "shorten redisClients w shortId (JsonValue (JStr u) ttl)
           = \<lparr>reply = Inr \<lparr>status = 200, content = Json_shortUrl shortId\<rparr>,
              after = w(c := (w c)\<lparr>entries :=
                        (entries (w c))(shortId \<mapsto> \<lparr>entry_value = u, entry_ttl = t\<rparr>)\<rparr>),
              calls = [(c, SET shortId (JStr u) (js_or ttl (JInt 3600)))]\<rparr>
       \<and> entries (after (shorten redisClients w shortId (JsonValue (JStr u) ttl)) c) shortId
           = Some \<lparr>entry_value = u, entry_ttl = t\<rparr>
       \<and> shorten_v1 redisClients w shortId (JsonValue (JStr u) ttl)
           = \<lparr>reply = Inr \<lparr>status = 200, content = Json_shortUrl shortId\<rparr>,
              after = w(c := (w c)\<lparr>entries :=
                        (entries (w c))(shortId \<mapsto> \<lparr>entry_value = u, entry_ttl = t\<rparr>)\<rparr>),
              calls = [(c, SET shortId (JStr u) (js_or ttl (JInt 3600)))]\<rparr>"
  using assms(1-4)
  by (simp add: shorten_stores [where w = w and t = t] shorten_v1_stores [where w = w and t = t])

theorem shorten_overwrites_witness:
  "getRedisClient reference_clients sample_key = Some 0 \<and> reachable (stored_world 0)
   \<and> sample_url \<noteq> [] \<and> expire_seconds (js_or (JInt 120) (JInt 3600)) = Some 120
   \<and> entries (stored_world 0) sample_key
       = Some \<lparr>entry_value = ascii ''https://old.example'', entry_ttl = 60\<rparr>
   \<and> calls (shorten reference_clients stored_world sample_key
               (JsonValue (JStr sample_url) (JInt 120)))
       = [(0, SET sample_key (JStr sample_url) (JInt 120))]
   \<and> entries (after (shorten reference_clients stored_world sample_key
                        (JsonValue (JStr sample_url) (JInt 120))) 0) sample_key
       = Some \<lparr>entry_value = sample_url, entry_ttl = 120\<rparr>"
proof -
  have h1: "getRedisClient reference_clients sample_key = Some 0" by (rule sample_key_client)
  have h3: "sample_url \<noteq> []" by (rule sample_url_nonempty)
  have h4: "expire_seconds (js_or (JInt 120) (JInt 3600)) = Some 120" by (simp add: js_or_def)
  have h5: "js_or (JInt 120) (JInt 3600) = JInt 120" by (simp add: js_or_def)
  show ?thesis
    using h1 h3 h4 h5 stored_world_0
      shorten_overwrites [of reference_clients sample_key 0 stored_world sample_url "JInt 120" 120
        "\<lparr>entry_value = ascii ''https://old.example'', entry_ttl = 60\<rparr>"]
    by simp
qed

text \<open>
  Claim C10. When the store holds the empty string as the value of a key, resolve
  answers "URL not found", the response it gives when the key has no entry at all.
\<close>

theorem resolve_empty_value:
  assumes "getRedisClient redisClients k = Some c" and "reachable (w c)"
    and "entries (w c) k = Some e" and "entry_value e = []"
  shows "reply (resolve redisClients w k)
           = Inr \<lparr>status = 404, content = Text ''URL not found''\<rparr>
       \<and> reply (resolve redisClients w k)
           = reply (resolve redisClients
                      (w(c := (w c)\<lparr>entries := (entries (w c))(k := None)\<rparr>)) k)"
proof -
  let ?w' = "w(c := (w c)\<lparr>entries := (entries (w c))(k := None)\<rparr>)"
  have r: "reachable (?w' c)" using assms(2) by (simp add: reachable_def)
  have n: "entries (?w' c) k = None" by simp
  have "reply (resolve redisClients w k)
          = Inr \<lparr>status = 404, content = Text ''URL not found''\<rparr>"
    using assms(4) by (simp add: resolve_present [where w = w, OF assms(1-3)])
  moreover have "reply (resolve redisClients ?w' k)
          = Inr \<lparr>status = 404, content = Text ''URL not found''\<rparr>"
    by (simp only: resolve_absent [where w = "?w'", OF assms(1) r n] outcome.simps)
  ultimately show ?thesis by simp
qed

theorem resolve_empty_value_witness:
  "getRedisClient reference_clients sample_key = Some 0 \<and> reachable (blank_world 0)
   \<and> entries (blank_world 0) sample_key = Some \<lparr>entry_value = [], entry_ttl = 60\<rparr>
   \<and> entry_value \<lparr>entry_value = [], entry_ttl = 60\<rparr> = []
   \<and> reply (resolve reference_clients blank_world sample_key)
       = Inr \<lparr>status = 404, content = Text ''URL not found''\<rparr>"
proof -
  have h1: "getRedisClient reference_clients sample_key = Some 0" by (rule sample_key_client)
  show ?thesis
    using h1 blank_world_0
      resolve_empty_value [of reference_clients sample_key 0 blank_world
        "\<lparr>entry_value = [], entry_ttl = 60\<rparr>"]
    by simp
qed

end
